theory Spec2Isabelle
  imports Complex_Main "HOL-Library.Word"
begin

section \<open>The sense2vec pipeline component (sense2vec/component.py)\<close>

text \<open>
  The component annotates spaCy documents with a reference to a \<^verbatim>\<open>Sense2Vec\<close> table and
  registers extension attributes on spaCy's \<^verbatim>\<open>Doc\<close>, \<^verbatim>\<open>Token\<close> and \<^verbatim>\<open>Span\<close> classes.
  The embedding follows the Python: every method of \<^verbatim>\<open>Sense2VecComponent\<close> is a function
  of the same name, an exception is a value \<open>Inl e\<close>, and the state a method mutates
  (the component itself, spaCy's class-level extension registry, the disk) is passed in
  and returned.
\<close>

subsection \<open>Exceptions\<close>

datatype ext_class = Doc | Token | Span

text \<open>
  The first five are the Python exceptions the component's own lines can raise through
  spaCy's extension mechanism and through attribute access, subscription and membership
  tests on \<^verbatim>\<open>None\<close>. The others are raised by the collaborators (the table, the key
  helper) and only ever pass through the component.
\<close>

datatype error =
    ExtensionExists ext_class string
  | ExtensionMissing ext_class string
  | NoAttribute string
  | NotSubscriptable
  | NotContainer
  | UnresolvableSense
  | KeyNotFound
  | InvalidArgument
  | StoreLoadError
  | OtherError string

subsection \<open>spaCy's extension registry\<close>

text \<open>
  \<^verbatim>\<open>set_extension\<close> is called with \<^verbatim>\<open>default=\<close>, \<^verbatim>\<open>getter=\<close> or \<^verbatim>\<open>method=\<close>; the callables
  the component passes are its own bound methods and \<^verbatim>\<open>get_phrases\<close>.
\<close>

datatype callable =
  GetPhrases | S2vKey | InS2v | S2vVec | S2vFreq | S2vOtherSenses | S2vMostSimilar

datatype extension = ExtDefault | ExtGetter callable | ExtMethod callable

type_synonym registry = "((ext_class \<times> string) \<times> extension) list"

text \<open>
  \<^verbatim>\<open>cls.set_extension(name, ...)\<close> without \<^verbatim>\<open>force=True\<close>: spaCy raises a \<^verbatim>\<open>ValueError\<close>
  when the class already has an extension of that name, and records the extension
  otherwise.
\<close>

definition set_extension ::
  "registry \<Rightarrow> ext_class \<Rightarrow> string \<Rightarrow> extension \<Rightarrow> error + registry" where
  "set_extension reg cls name ext =
     (case map_of reg (cls, name) of
        Some _ \<Rightarrow> Inl (ExtensionExists cls name)
      | None \<Rightarrow> Inr (reg @ [((cls, name), ext)]))"

text \<open>
  The value read from the \<^verbatim>\<open>_s2v\<close> attribute: \<^verbatim>\<open>None\<close>, a table, or any other Python
  value (what a getter or a method registered under that name would yield; the component
  registers none).
\<close>

datatype 's pyval = PyNone | PyStore 's | PyOther

text \<open>
  Reading \<^verbatim>\<open>x._._s2v\<close> on an object of class \<open>cls\<close> whose user data holds \<open>slot\<close> for
  that attribute: spaCy raises an \<^verbatim>\<open>AttributeError\<close> when the class has no extension of
  that name; a default-valued extension yields the stored value, or the default
  \<^verbatim>\<open>None\<close> when nothing was stored.
\<close>

definition underscore_get :: "registry \<Rightarrow> ext_class \<Rightarrow> 's option \<Rightarrow> error + 's pyval" where
  "underscore_get reg cls slot =
     (case map_of reg (cls, ''_s2v'') of
        None \<Rightarrow> Inl (ExtensionMissing cls ''_s2v'')
      | Some ExtDefault \<Rightarrow> Inr (case slot of None \<Rightarrow> PyNone | Some st \<Rightarrow> PyStore st)
      | Some (ExtGetter g) \<Rightarrow> Inr PyOther
      | Some (ExtMethod m) \<Rightarrow> Inr PyOther)"

text \<open>
  Attribute access \<^verbatim>\<open>v.name\<close> for a method of the table: only a table has it.
\<close>

definition getattr :: "'s pyval \<Rightarrow> string \<Rightarrow> error + 's" where
  "getattr v name = (case v of PyStore st \<Rightarrow> Inr st | _ \<Rightarrow> Inl (NoAttribute name))"

subsection \<open>Documents, tokens and spans\<close>

text \<open>
  A document carries its words and the user-data entry of its \<^verbatim>\<open>_s2v\<close> attribute
  (\<open>None\<close> when nothing was ever assigned). A token or span carries the fields the key
  helper reads, the document it belongs to (\<^verbatim>\<open>obj.doc\<close>) and its own user-data entry for
  \<^verbatim>\<open>_s2v\<close>, which nothing in the component assigns.
\<close>

record 's doc =
  doc_words :: "string list"
  user_s2v :: "'s option"

datatype obj_kind = IsToken | IsSpan

fun class_of :: "obj_kind \<Rightarrow> ext_class" where
  "class_of IsToken = Token"
| "class_of IsSpan = Span"

record 's obj =
  obj_kind :: obj_kind
  obj_text :: string
  obj_pos :: string
  obj_label :: "string option"
  obj_doc :: "'s doc"
  obj_user_s2v :: "'s option"

subsection \<open>The collaborators\<close>

type_synonym bytes = "8 word list"
type_synonym vector = "real list"
type_synonym disk = "(string \<times> bytes) list"

record vocab =
  vocab_strings :: "string list"

text \<open>
  The \<^verbatim>\<open>Sense2Vec\<close> class (sense2vec/sense2vec.py) and the helpers of sense2vec/util.py
  are imported by the component; they are parameters of the embedding. \<open>'s\<close> is the
  state of a table. \<open>store_new shape strings\<close> is the constructor (\<open>None\<close> for an
  argument left at the class's default), \<open>store_contains\<close> is \<^verbatim>\<open>key in s2v\<close>,
  \<open>store_getitem\<close> is \<^verbatim>\<open>s2v[key]\<close>; the serialisation methods take the \<^verbatim>\<open>exclude\<close> list.
\<close>

record 's externals =
  store_new :: "(nat \<times> nat) option \<Rightarrow> string list option \<Rightarrow> 's"
  store_contains :: "'s \<Rightarrow> string \<Rightarrow> bool"
  store_getitem :: "'s \<Rightarrow> string \<Rightarrow> error + vector"
  store_get_freq :: "'s \<Rightarrow> string \<Rightarrow> error + int"
  store_most_similar :: "'s \<Rightarrow> string list \<Rightarrow> int \<Rightarrow> error + (string \<times> real) list"
  store_get_other_senses :: "'s \<Rightarrow> string \<Rightarrow> error + string list"
  store_make_key :: "'s \<Rightarrow> string \<Rightarrow> string \<Rightarrow> string"
  store_split_key :: "'s \<Rightarrow> string \<Rightarrow> string \<times> string"
  store_to_bytes :: "'s \<Rightarrow> string list \<Rightarrow> error + bytes"
  store_from_bytes :: "'s \<Rightarrow> bytes \<Rightarrow> string list \<Rightarrow> error + 's"
  store_to_disk :: "'s \<Rightarrow> string \<Rightarrow> string list \<Rightarrow> disk \<Rightarrow> error + disk"
  store_from_disk :: "'s \<Rightarrow> string \<Rightarrow> string list \<Rightarrow> disk \<Rightarrow> error + 's"
  util_merge_phrases :: "'s doc \<Rightarrow> 's doc"
  util_make_spacy_key :: "'s obj \<Rightarrow> (string \<Rightarrow> string \<Rightarrow> string) \<Rightarrow> bool \<Rightarrow> error + string"

subsection \<open>The component and the state around it\<close>

record 's sense2vec_component =
  s2v :: 's
  first_run :: bool
  merge_phrases :: bool

text \<open>
  The world a method runs in: spaCy's class-level registry of extensions (shared by
  every pipeline of the process), the component, and the disk. \<open>init_entries\<close> is a
  probe on \<^verbatim>\<open>init_component\<close>: the number of times it has been entered. No method reads
  it; \<^verbatim>\<open>init_component\<close> alone advances it, so it counts the calls that \<^verbatim>\<open>__call__\<close>
  really makes.
\<close>

record 's world =
  registry :: registry
  component :: "'s sense2vec_component"
  disk :: disk
  init_entries :: nat

text \<open>\<^verbatim>\<open>__init__(self, vocab, shape, merge_phrases)\<close>\<close>

definition init ::
  "'s externals \<Rightarrow> 's world \<Rightarrow> vocab option \<Rightarrow> nat \<times> nat \<Rightarrow> bool \<Rightarrow> 's world" where
  "init E w vocab shape mp =
     (let strings = (case vocab of Some v \<Rightarrow> Some (vocab_strings v) | None \<Rightarrow> None)
      in w\<lparr>component :=
             \<lparr>s2v = store_new E (Some shape) strings, first_run = True, merge_phrases = mp\<rparr>\<rparr>)"

text \<open>\<^verbatim>\<open>from_nlp(cls, nlp, **kwargs)\<close>, with the keyword arguments \<^verbatim>\<open>shape\<close> and \<^verbatim>\<open>merge_phrases\<close>\<close>

record language =
  lang_vocab :: vocab

definition from_nlp ::
  "'s externals \<Rightarrow> 's world \<Rightarrow> language \<Rightarrow> nat \<times> nat \<Rightarrow> bool \<Rightarrow> 's world" where
  "from_nlp E w nlp shape mp = init E w (Some (lang_vocab nlp)) shape mp"

text \<open>
  \<^verbatim>\<open>init_component\<close>: the calls to \<^verbatim>\<open>set_extension\<close> in the order of the source. An
  exception leaves the extensions registered before it in place.
\<close>

definition object_extensions :: "ext_class \<Rightarrow> registry" where
  "object_extensions cls =
     [((cls, ''s2v_key''), ExtGetter S2vKey),
      ((cls, ''in_s2v''), ExtGetter InS2v),
      ((cls, ''s2v_vec''), ExtGetter S2vVec),
      ((cls, ''s2v_freq''), ExtGetter S2vFreq),
      ((cls, ''s2v_other_senses''), ExtGetter S2vOtherSenses),
      ((cls, ''s2v_most_similar''), ExtMethod S2vMostSimilar)]"

definition component_extensions :: registry where
  "component_extensions =
     [((Doc, ''_s2v''), ExtDefault), ((Doc, ''s2v_phrases''), ExtGetter GetPhrases)]
     @ concat (map object_extensions [Token, Span])"

fun register_all :: "registry \<Rightarrow> registry \<Rightarrow> error option \<times> registry" where
  "register_all reg [] = (None, reg)"
| "register_all reg (((cls, name), ext) # rest) =
     (case set_extension reg cls name ext of
        Inl e \<Rightarrow> (Some e, reg)
      | Inr reg' \<Rightarrow> register_all reg' rest)"

definition init_component :: "'s world \<Rightarrow> error option \<times> 's world" where
  "init_component w =
     (case register_all (registry w) component_extensions of
        (r, reg') \<Rightarrow> (r, w\<lparr>registry := reg', init_entries := Suc (init_entries w)\<rparr>))"

text \<open>
  \<^verbatim>\<open>doc._._s2v = value\<close>: spaCy raises an \<^verbatim>\<open>AttributeError\<close> when \<^verbatim>\<open>Doc\<close> has no extension
  of that name and stores the value in the document's user data otherwise.
\<close>

definition set_doc_s2v :: "registry \<Rightarrow> 's doc \<Rightarrow> 's \<Rightarrow> error + 's doc" where
  "set_doc_s2v reg d st =
     (case map_of reg (Doc, ''_s2v'') of
        None \<Rightarrow> Inl (ExtensionMissing Doc ''_s2v'')
      | Some _ \<Rightarrow> Inr (d\<lparr>user_s2v := Some st\<rparr>))"

text \<open>
  \<^verbatim>\<open>__call__(self, doc)\<close>. The flag is cleared only after \<^verbatim>\<open>init_component\<close> has
  returned; the reference is stored on the document before the phrases are merged.
\<close>

definition call :: "'s externals \<Rightarrow> 's world \<Rightarrow> 's doc \<Rightarrow> (error + 's doc) \<times> 's world" where
  "call E w d =
     (case (if first_run (component w)
            then (case init_component w of
                    (Some e, w') \<Rightarrow> (Some e, w')
                  | (None, w') \<Rightarrow> (None, w'\<lparr>component := (component w')\<lparr>first_run := False\<rparr>\<rparr>))
            else (None, w)) of
        (Some e, w1) \<Rightarrow> (Inl e, w1)
      | (None, w1) \<Rightarrow>
          (case set_doc_s2v (registry w1) d (s2v (component w1)) of
             Inl e \<Rightarrow> (Inl e, w1)
           | Inr d1 \<Rightarrow>
               (Inr (if merge_phrases (component w1) then util_merge_phrases E d1 else d1), w1)))"

subsection \<open>The extension attributes\<close>

text \<open>\<^verbatim>\<open>obj.doc._._s2v\<close> and \<^verbatim>\<open>obj._._s2v\<close>\<close>

definition doc_s2v :: "'s world \<Rightarrow> 's obj \<Rightarrow> error + 's pyval" where
  "doc_s2v w obj = underscore_get (registry w) Doc (user_s2v (obj_doc obj))"

definition own_s2v :: "'s world \<Rightarrow> 's obj \<Rightarrow> error + 's pyval" where
  "own_s2v w obj = underscore_get (registry w) (class_of (obj_kind obj)) (obj_user_s2v obj)"

text \<open>
  \<^verbatim>\<open>s2v_key\<close>: the argument \<^verbatim>\<open>obj.doc._._s2v.make_key\<close> is evaluated before the helper is
  called.
\<close>

definition s2v_key :: "'s externals \<Rightarrow> 's world \<Rightarrow> 's obj \<Rightarrow> error + string" where
  "s2v_key E w obj =
     (case doc_s2v w obj of
        Inl e \<Rightarrow> Inl e
      | Inr v \<Rightarrow>
          (case getattr v ''make_key'' of
             Inl e \<Rightarrow> Inl e
           | Inr st \<Rightarrow>
               util_make_spacy_key E obj (store_make_key E st) (merge_phrases (component w))))"

text \<open>\<^verbatim>\<open>in_s2v\<close>: the left operand of \<^verbatim>\<open>in\<close> is evaluated first.\<close>

definition in_s2v :: "'s externals \<Rightarrow> 's world \<Rightarrow> 's obj \<Rightarrow> error + bool" where
  "in_s2v E w obj =
     (case s2v_key E w obj of
        Inl e \<Rightarrow> Inl e
      | Inr key \<Rightarrow>
          (case doc_s2v w obj of
             Inl e \<Rightarrow> Inl e
           | Inr (PyStore st) \<Rightarrow> Inr (store_contains E st key)
           | Inr _ \<Rightarrow> Inl NotContainer))"

text \<open>\<^verbatim>\<open>s2v_vec\<close>: the subscripted value is evaluated before the subscript.\<close>

definition s2v_vec :: "'s externals \<Rightarrow> 's world \<Rightarrow> 's obj \<Rightarrow> error + vector" where
  "s2v_vec E w obj =
     (case doc_s2v w obj of
        Inl e \<Rightarrow> Inl e
      | Inr v \<Rightarrow>
          (case s2v_key E w obj of
             Inl e \<Rightarrow> Inl e
           | Inr key \<Rightarrow>
               (case v of
                  PyStore st \<Rightarrow> store_getitem E st key
                | _ \<Rightarrow> Inl NotSubscriptable)))"

text \<open>\<^verbatim>\<open>s2v_freq\<close>: the method is looked up before its argument is evaluated.\<close>

definition s2v_freq :: "'s externals \<Rightarrow> 's world \<Rightarrow> 's obj \<Rightarrow> error + int" where
  "s2v_freq E w obj =
     (case doc_s2v w obj of
        Inl e \<Rightarrow> Inl e
      | Inr v \<Rightarrow>
          (case getattr v ''get_freq'' of
             Inl e \<Rightarrow> Inl e
           | Inr st \<Rightarrow>
               (case s2v_key E w obj of
                  Inl e \<Rightarrow> Inl e
                | Inr key \<Rightarrow> store_get_freq E st key)))"

text \<open>
  \<^verbatim>\<open>s2v_most_similar\<close>: the query goes to the table on the document, the results are
  split by the component's own table (\<^verbatim>\<open>self.s2v.split_key\<close>).
\<close>

definition s2v_most_similar ::
  "'s externals \<Rightarrow> 's world \<Rightarrow> 's obj \<Rightarrow> int \<Rightarrow> error + ((string \<times> string) \<times> real) list" where
  "s2v_most_similar E w obj n =
     (case s2v_key E w obj of
        Inl e \<Rightarrow> Inl e
      | Inr key \<Rightarrow>
          (case doc_s2v w obj of
             Inl e \<Rightarrow> Inl e
           | Inr v \<Rightarrow>
               (case getattr v ''most_similar'' of
                  Inl e \<Rightarrow> Inl e
                | Inr st \<Rightarrow>
                    (case store_most_similar E st [key] n of
                       Inl e \<Rightarrow> Inl e
                     | Inr results \<Rightarrow>
                         Inr (map (\<lambda>(result, score).
                                     (store_split_key E (s2v (component w)) result, score))
                                results)))))"

text \<open>\<^verbatim>\<open>s2v_other_senses\<close>: the table is read from \<^verbatim>\<open>obj._._s2v\<close>, not from the document.\<close>

definition s2v_other_senses :: "'s externals \<Rightarrow> 's world \<Rightarrow> 's obj \<Rightarrow> error + string list" where
  "s2v_other_senses E w obj =
     (case s2v_key E w obj of
        Inl e \<Rightarrow> Inl e
      | Inr key \<Rightarrow>
          (case own_s2v w obj of
             Inl e \<Rightarrow> Inl e
           | Inr v \<Rightarrow>
               (case getattr v ''get_other_senses'' of
                  Inl e \<Rightarrow> Inl e
                | Inr st \<Rightarrow> store_get_other_senses E st key)))"

subsection \<open>Serialisation\<close>

text \<open>
  \<^verbatim>\<open>from_bytes\<close> and \<^verbatim>\<open>from_disk\<close> load into a table built by \<^verbatim>\<open>Sense2Vec()\<close> and return
  \<^verbatim>\<open>self\<close>; an exception of the table leaves the component as it was.
\<close>

definition to_bytes :: "'s externals \<Rightarrow> 's world \<Rightarrow> (error + bytes) \<times> 's world" where
  "to_bytes E w = (store_to_bytes E (s2v (component w)) [''strings''], w)"

definition from_bytes ::
  "'s externals \<Rightarrow> 's world \<Rightarrow> bytes \<Rightarrow> (error + 's sense2vec_component) \<times> 's world" where
  "from_bytes E w bytes_data =
     (case store_from_bytes E (store_new E None None) bytes_data [''strings''] of
        Inl e \<Rightarrow> (Inl e, w)
      | Inr st \<Rightarrow>
          (let w' = w\<lparr>component := (component w)\<lparr>s2v := st\<rparr>\<rparr> in (Inr (component w'), w')))"

definition to_disk :: "'s externals \<Rightarrow> 's world \<Rightarrow> string \<Rightarrow> (error + unit) \<times> 's world" where
  "to_disk E w path =
     (case store_to_disk E (s2v (component w)) path [''strings''] (disk w) of
        Inl e \<Rightarrow> (Inl e, w)
      | Inr dk \<Rightarrow> (Inr (), w\<lparr>disk := dk\<rparr>))"

definition from_disk ::
  "'s externals \<Rightarrow> 's world \<Rightarrow> string \<Rightarrow> (error + 's sense2vec_component) \<times> 's world" where
  "from_disk E w path =
     (case store_from_disk E (store_new E None None) path [''strings''] (disk w) of
        Inl e \<Rightarrow> (Inl e, w)
      | Inr st \<Rightarrow>
          (let w' = w\<lparr>component := (component w)\<lparr>s2v := st\<rparr>\<rparr> in (Inr (component w'), w')))"

subsection \<open>Sequences of calls\<close>

text \<open>
  The methods that change state, as operations on the world. A caller may catch an
  exception and go on, so a sequence continues from the state the failed call left.
\<close>

datatype 's operation =
  Process "'s doc" | ToBytes | FromBytes bytes | ToDisk string | FromDisk string

fun step :: "'s externals \<Rightarrow> 's world \<Rightarrow> 's operation \<Rightarrow> 's world" where
  "step E w (Process d) = snd (call E w d)"
| "step E w ToBytes = snd (to_bytes E w)"
| "step E w (FromBytes b) = snd (from_bytes E w b)"
| "step E w (ToDisk path) = snd (to_disk E w path)"
| "step E w (FromDisk path) = snd (from_disk E w path)"

fun run :: "'s externals \<Rightarrow> 's world \<Rightarrow> 's operation list \<Rightarrow> 's world" where
  "run E w [] = w"
| "run E w (x # xs) = run E (step E w x) xs"

fun is_process :: "'s operation \<Rightarrow> bool" where
  "is_process (Process d) = True"
| "is_process _ = False"

text \<open>
  \<^verbatim>\<open>__call__\<close> is the only caller of \<^verbatim>\<open>init_component\<close>, under the test of
  \<^verbatim>\<open>self.first_run\<close>: an operation runs the registration when it is a \<open>Process\<close> met with
  the flag set. \<open>init_calls\<close> counts these along a sequence; the probe \<open>init_entries\<close>
  advances by exactly this count (lemma \<open>run_entries\<close>).
\<close>

fun runs_init :: "'s world \<Rightarrow> 's operation \<Rightarrow> bool" where
  "runs_init w (Process d) = first_run (component w)"
| "runs_init w _ = False"

fun init_calls :: "'s externals \<Rightarrow> 's world \<Rightarrow> 's operation list \<Rightarrow> nat" where
  "init_calls E w [] = 0"
| "init_calls E w (x # xs) = (if runs_init w x then 1 else 0) + init_calls E (step E w x) xs"

text \<open>
  No extension of the component is registered yet: every \<^verbatim>\<open>set_extension\<close> of
  \<^verbatim>\<open>init_component\<close> will find its name free.
\<close>

definition unregistered :: "registry \<Rightarrow> bool" where
  "unregistered reg = list_all (\<lambda>x. map_of reg (fst x) = None) component_extensions"

text \<open>
  The document of \<open>obj\<close> holds the table \<open>st\<close> in its \<^verbatim>\<open>_s2v\<close> attribute, registered on
  \<^verbatim>\<open>Doc\<close> as \<^verbatim>\<open>init_component\<close> registers it.
\<close>

definition bound_to :: "'s world \<Rightarrow> 's obj \<Rightarrow> 's \<Rightarrow> bool" where
  "bound_to w obj st =
     (map_of (registry w) (Doc, ''_s2v'') = Some ExtDefault \<and> user_s2v (obj_doc obj) = Some st)"

text \<open>
  The failures of reading a table off a document that has none: \<^verbatim>\<open>Doc\<close> has no
  \<^verbatim>\<open>_s2v\<close> extension at all, or the attribute does not hold a table and the method
  looked up on it is missing. Both are Python's \<^verbatim>\<open>AttributeError\<close>.
\<close>

fun unbound_document :: "error \<Rightarrow> bool" where
  "unbound_document (ExtensionMissing cls name) = (cls = Doc \<and> name = ''_s2v'')"
| "unbound_document (NoAttribute name) = True"
| "unbound_document _ = False"

text \<open>
  \<^verbatim>\<open>__call__\<close> will get past the registration and the assignment to \<^verbatim>\<open>doc._._s2v\<close>: on
  its first run no extension of the component is registered yet, on a later run \<^verbatim>\<open>Doc\<close>
  has the \<^verbatim>\<open>_s2v\<close> extension.
\<close>

definition can_stamp :: "'s world \<Rightarrow> bool" where
  "can_stamp w =
     (if first_run (component w) then unregistered (registry w)
      else map_of (registry w) (Doc, ''_s2v'') \<noteq> None)"

text \<open>
  Between two worlds nothing but the component's table differs, and the accessors that
  read only the table on the document answer alike in both.
\<close>

definition only_table_replaced :: "'s world \<Rightarrow> 's world \<Rightarrow> bool" where
  "only_table_replaced w w' =
     (first_run (component w') = first_run (component w) \<and>
      merge_phrases (component w') = merge_phrases (component w) \<and>
      registry w' = registry w \<and> disk w' = disk w \<and> init_entries w' = init_entries w)"

definition same_answers :: "'s externals \<Rightarrow> 's world \<Rightarrow> 's world \<Rightarrow> 's obj \<Rightarrow> bool" where
  "same_answers E w w' obj =
     (s2v_key E w' obj = s2v_key E w obj \<and> in_s2v E w' obj = in_s2v E w obj \<and>
      s2v_vec E w' obj = s2v_vec E w obj \<and> s2v_freq E w' obj = s2v_freq E w obj \<and>
      s2v_other_senses E w' obj = s2v_other_senses E w obj)"

subsection \<open>The key helper\<close>

text \<open>
  Modelled from the spec: \<^verbatim>\<open>make_spacy_key\<close> of sense2vec/util.py, which is not among the
  sources. The specification's key codec: the sense is the entity label, uppercased,
  when entities are preferred and the object is a recognised entity, and the coarse
  grammatical tag, uppercased, otherwise; an empty sense is an error; the text is
  lower-cased, runs of whitespace become one underscore and the separator is removed.
\<close>

definition upper_char :: "char \<Rightarrow> char" where
  "upper_char c =
     (case map_of (zip ''abcdefghijklmnopqrstuvwxyz'' ''ABCDEFGHIJKLMNOPQRSTUVWXYZ'') c of
        Some u \<Rightarrow> u | None \<Rightarrow> c)"

definition lower_char :: "char \<Rightarrow> char" where
  "lower_char c =
     (case map_of (zip ''ABCDEFGHIJKLMNOPQRSTUVWXYZ'' ''abcdefghijklmnopqrstuvwxyz'') c of
        Some l \<Rightarrow> l | None \<Rightarrow> c)"

definition is_space :: "char \<Rightarrow> bool" where
  "is_space c = (c \<in> set [CHR '' '', CHR 0x09, CHR 0x0A, CHR 0x0D])"

fun collapse_whitespace :: "string \<Rightarrow> string" where
  "collapse_whitespace [] = []"
| "collapse_whitespace [c] = [if is_space c then CHR ''_'' else c]"
| "collapse_whitespace (c # c' # cs) =
     (if is_space c
      then (if is_space c' then collapse_whitespace (c' # cs)
            else CHR ''_'' # collapse_whitespace (c' # cs))
      else c # collapse_whitespace (c' # cs))"

definition normalize_text :: "string \<Rightarrow> string" where
  "normalize_text t =
     collapse_whitespace (map lower_char (filter (\<lambda>c. c \<noteq> CHR ''|'') t))"

definition resolve_sense :: "'s obj \<Rightarrow> bool \<Rightarrow> string" where
  "resolve_sense obj prefer_ents =
     (case obj_label obj of
        Some label \<Rightarrow> if prefer_ents then map upper_char label else map upper_char (obj_pos obj)
      | None \<Rightarrow> map upper_char (obj_pos obj))"

definition make_spacy_key ::
  "'s obj \<Rightarrow> (string \<Rightarrow> string \<Rightarrow> string) \<Rightarrow> bool \<Rightarrow> error + string" where
  "make_spacy_key obj make_key prefer_ents =
     (let sense = resolve_sense obj prefer_ents
      in if sense = [] then Inl UnresolvableSense
         else Inr (make_key (normalize_text (obj_text obj)) sense))"

subsection \<open>A small table for concrete runs\<close>

text \<open>
  A table held as a list of rows (key, vector, frequency) with canned answers for the
  queries, used to run the component on concrete inputs. Keys are written
  \<^verbatim>\<open>word|SENSE\<close> and split at the last separator.
\<close>

type_synonym table = "(string \<times> vector \<times> int) list"

definition bar_key :: "string \<Rightarrow> string \<Rightarrow> string" where
  "bar_key word sense = word @ ''|'' @ sense"

definition bar_split :: "string \<Rightarrow> string \<times> string" where
  "bar_split key =
     (let r = rev key
      in (rev (drop 1 (dropWhile (\<lambda>c. c \<noteq> CHR ''|'') r)),
          rev (takeWhile (\<lambda>c. c \<noteq> CHR ''|'') r)))"

definition table_bytes :: "table \<Rightarrow> bytes" where
  "table_bytes t = map (\<lambda>row. of_nat (length (fst row))) t"

definition table_load :: "bytes \<Rightarrow> error + table" where
  "table_load b =
     (if b = [] then Inl StoreLoadError
      else Inr (map (\<lambda>n. (replicate (unat n) CHR ''x'' @ ''|X'', [], 0)) b))"

definition join_words :: "'s doc \<Rightarrow> 's doc" where
  "join_words d = d\<lparr>doc_words := [concat (doc_words d)]\<rparr>"

definition table_env :: "table externals" where
  "table_env =
     \<lparr>store_new = (\<lambda>shape strings. []),
      store_contains = (\<lambda>t key. map_of t key \<noteq> None),
      store_getitem = (\<lambda>t key. case map_of t key of
                                  None \<Rightarrow> Inl KeyNotFound | Some (v, f) \<Rightarrow> Inr v),
      store_get_freq = (\<lambda>t key. case map_of t key of
                                   None \<Rightarrow> Inl KeyNotFound | Some (v, f) \<Rightarrow> Inr f),
      store_most_similar = (\<lambda>t keys n.
         Inr (take (nat n) (map (\<lambda>row. (fst row, 1))
                                (filter (\<lambda>row. fst row \<notin> set keys) t)))),
      store_get_other_senses = (\<lambda>t key.
         Inr (filter (\<lambda>k. k \<noteq> key \<and> fst (bar_split k) = fst (bar_split key)) (map fst t))),
      store_make_key = (\<lambda>t. bar_key),
      store_split_key = (\<lambda>t. bar_split),
      store_to_bytes = (\<lambda>t exclude. Inr (table_bytes t)),
      store_from_bytes = (\<lambda>t b exclude. table_load b),
      store_to_disk = (\<lambda>t path exclude dk. Inr ((path, table_bytes t) # dk)),
      store_from_disk = (\<lambda>t path exclude dk. case map_of dk path of
                                                 None \<Rightarrow> Inl StoreLoadError
                                               | Some b \<Rightarrow> table_load b),
      util_merge_phrases = join_words,
      util_make_spacy_key = make_spacy_key\<rparr>"

definition animals :: table where
  "animals = [(''dog|NOUN'', [1, 2], 42), (''duck|NOUN'', [3, 4], 7), (''duck|VERB'', [5, 6], 3)]"

definition no_extensions :: "table world" where
  "no_extensions =
     \<lparr>registry = [], component = \<lparr>s2v = animals, first_run = True, merge_phrases = False\<rparr>,
      disk = [], init_entries = 0\<rparr>"

definition plain_doc :: "table doc" where
  "plain_doc = \<lparr>doc_words = [''the'', ''dog''], user_s2v = None\<rparr>"

definition token_of :: "table doc \<Rightarrow> string \<Rightarrow> string \<Rightarrow> table obj" where
  "token_of d word pos =
     \<lparr>obj_kind = IsToken, obj_text = word, obj_pos = pos, obj_label = None, obj_doc = d,
      obj_user_s2v = None\<rparr>"

definition sample_ops :: "table operation list" where
  "sample_ops = [ToBytes, Process plain_doc, FromBytes [3], Process plain_doc, ToDisk ''model'']"

definition ready_world :: "table world" where
  "ready_world = snd (call table_env no_extensions plain_doc)"

definition stamped_doc :: "table doc" where
  "stamped_doc = plain_doc\<lparr>user_s2v := Some animals\<rparr>"

definition rebuild_doc :: "'s doc \<Rightarrow> 's doc" where
  "rebuild_doc d = \<lparr>doc_words = [concat (doc_words d)], user_s2v = None\<rparr>"

definition rebuilding_env :: "table externals" where
  "rebuilding_env = table_env\<lparr>util_merge_phrases := rebuild_doc\<rparr>"

definition merging_world :: "table world" where
  "merging_world =
     \<lparr>registry = [], component = \<lparr>s2v = animals, first_run = True, merge_phrases = True\<rparr>,
      disk = [], init_entries = 0\<rparr>"

definition ready_merging :: "table world" where
  "ready_merging =
     \<lparr>registry = component_extensions,
      component = \<lparr>s2v = animals, first_run = False, merge_phrases = True\<rparr>, disk = [],
      init_entries = 1\<rparr>"

definition span_of :: "table doc \<Rightarrow> string \<Rightarrow> string \<Rightarrow> string \<Rightarrow> table obj" where
  "span_of d words pos label =
     \<lparr>obj_kind = IsSpan, obj_text = words, obj_pos = pos, obj_label = Some label, obj_doc = d,
      obj_user_s2v = None\<rparr>"

definition second_component :: "table world" where
  "second_component = init table_env ready_world None (1000, 128) False"

definition three_docs :: "table operation list" where
  "three_docs = [Process plain_doc, Process plain_doc, Process plain_doc]"

definition defaulting_env :: "table externals" where
  "defaulting_env =
     table_env\<lparr>store_getitem :=
       (\<lambda>t key. case map_of t key of None \<Rightarrow> Inr [] | Some (v, f) \<Rightarrow> Inr v)\<rparr>"

definition no_process_ops :: "table operation list" where
  "no_process_ops = [ToBytes, FromBytes [3], ToDisk ''model'', FromDisk ''model'']"

section \<open>Properties\<close>

subsection \<open>Registration\<close>

lemma register_all_fresh:
  "distinct (map fst xs) \<Longrightarrow> list_all (\<lambda>x. map_of reg (fst x) = None) xs
   \<Longrightarrow> register_all reg xs = (None, reg @ xs)"
proof (induction xs arbitrary: reg)
  case Nil
  then show ?case by simp
next
  case (Cons x xs)
  obtain cls name ext where x: "x = ((cls, name), ext)"
    by (metis surj_pair)
  from Cons.prems have free: "map_of reg (cls, name) = None"
    by (simp add: x)
  have rest: "list_all (\<lambda>y. map_of (reg @ [((cls, name), ext)]) (fst y) = None) xs"
    unfolding list_all_iff
  proof
    fix y
    assume y: "y \<in> set xs"
    from Cons.prems(1) y have "fst y \<noteq> (cls, name)"
      by (force simp: x)
    moreover from Cons.prems(2) y have "map_of reg (fst y) = None"
      by (simp add: list_all_iff)
    ultimately show "map_of (reg @ [((cls, name), ext)]) (fst y) = None"
      by (simp add: map_add_def)
  qed
  from Cons.prems have "distinct (map fst xs)"
    by simp
  from Cons.IH [OF this rest] free show ?case
    by (simp add: x set_extension_def)
qed

lemma distinct_component_extensions: "distinct (map fst component_extensions)"
  by (simp add: component_extensions_def object_extensions_def)

lemma init_component_fresh:
  "unregistered (registry w) \<Longrightarrow>
   init_component w =
     (None, w\<lparr>registry := registry w @ component_extensions,
              init_entries := Suc (init_entries w)\<rparr>)"
  by (simp add: init_component_def unregistered_def register_all_fresh
      distinct_component_extensions)

lemma call_first:
  "first_run (component w) \<Longrightarrow> unregistered (registry w) \<Longrightarrow>
   snd (call E w d) =
     w\<lparr>registry := registry w @ component_extensions,
       component := (component w)\<lparr>first_run := False\<rparr>,
       init_entries := Suc (init_entries w)\<rparr>"
  by (simp add: call_def init_component_fresh split: sum.splits)

lemma call_later: "\<not> first_run (component w) \<Longrightarrow> snd (call E w d) = w"
  by (simp add: call_def split: sum.splits)

lemma step_other:
  "\<not> is_process x \<Longrightarrow>
   registry (step E w x) = registry w \<and>
   first_run (component (step E w x)) = first_run (component w) \<and>
   merge_phrases (component (step E w x)) = merge_phrases (component w) \<and>
   init_entries (step E w x) = init_entries w"
  by (cases x)
    (simp_all add: to_bytes_def from_bytes_def to_disk_def from_disk_def Let_def
      split: sum.splits)

lemma step_initialized:
  "\<not> first_run (component w) \<Longrightarrow>
   registry (step E w x) = registry w \<and> \<not> first_run (component (step E w x))"
  by (cases x)
    (simp_all add: call_later to_bytes_def from_bytes_def to_disk_def from_disk_def Let_def
      split: sum.splits)

lemma run_initialized:
  "\<not> first_run (component w) \<Longrightarrow>
   init_calls E w ops = 0 \<and> registry (run E w ops) = registry w \<and>
   \<not> first_run (component (run E w ops))"
proof (induction ops arbitrary: w)
  case Nil
  then show ?case by simp
next
  case (Cons x xs)
  have s: "registry (step E w x) = registry w \<and> \<not> first_run (component (step E w x))"
    using Cons.prems by (rule step_initialized)
  have "\<not> runs_init w x"
    using Cons.prems by (cases x) simp_all
  with Cons.IH [of "step E w x"] s show ?case
    by simp
qed

lemma step_registry:
  "registry (step E w x) =
     (if runs_init w x then snd (register_all (registry w) component_extensions)
      else registry w)"
  by (cases x)
    (auto simp: call_def init_component_def to_bytes_def from_bytes_def to_disk_def
      from_disk_def Let_def split: sum.splits prod.splits option.splits)

lemma call_extension_exists:
  assumes "first_run (component w)" and "map_of (registry w) (Doc, ''_s2v'') \<noteq> None"
  shows "call E w d =
           (Inl (ExtensionExists Doc ''_s2v''), w\<lparr>init_entries := Suc (init_entries w)\<rparr>)"
  using assms
  by (auto simp: call_def init_component_def component_extensions_def set_extension_def)

lemma step_entries:
  "init_entries (step E w x) = init_entries w + (if runs_init w x then 1 else 0)"
  by (cases x)
    (auto simp: call_def init_component_def to_bytes_def from_bytes_def to_disk_def
      from_disk_def Let_def split: sum.splits prod.splits option.splits)

lemma run_entries: "init_entries (run E w ops) = init_entries w + init_calls E w ops"
  by (induction ops arbitrary: w) (simp_all add: step_entries)

lemma no_extensions_first_run: "first_run (component no_extensions)"
  by (simp add: no_extensions_def)

lemma no_extensions_unregistered: "unregistered (registry no_extensions)"
  by (simp add: no_extensions_def unregistered_def component_extensions_def
      object_extensions_def)

lemma ready_world_eq:
  "ready_world = \<lparr>registry = component_extensions,
     component = \<lparr>s2v = animals, first_run = False, merge_phrases = False\<rparr>, disk = [],
     init_entries = 1\<rparr>"
  unfolding ready_world_def call_first [OF no_extensions_first_run no_extensions_unregistered]
  by (simp add: no_extensions_def)

lemma first_call_result: "fst (call table_env no_extensions plain_doc) = Inr stamped_doc"
  by (simp add: call_def init_component_def no_extensions_def component_extensions_def
      object_extensions_def set_extension_def set_doc_s2v_def stamped_doc_def)

lemma run_fresh:
  assumes "first_run (component w)" and "unregistered (registry w)"
  shows "init_calls E w ops = (if list_ex is_process ops then 1 else 0) \<and>
         first_run (component (run E w ops)) = (\<not> list_ex is_process ops) \<and>
         registry (run E w ops) =
           (if list_ex is_process ops then registry w @ component_extensions else registry w)"
  using assms
proof (induction ops arbitrary: w)
  case Nil
  then show ?case by simp
next
  case (Cons x xs)
  show ?case
  proof (cases "is_process x")
    case True
    then obtain d where x: "x = Process d"
      by (cases x) simp_all
    let ?w = "step E w x"
    have w': "?w = w\<lparr>registry := registry w @ component_extensions,
                     component := (component w)\<lparr>first_run := False\<rparr>,
                     init_entries := Suc (init_entries w)\<rparr>"
      using Cons.prems by (simp add: x call_first)
    then have "\<not> first_run (component ?w)"
      by simp
    from run_initialized [OF this, of E xs] w' Cons.prems(1) show ?thesis
      by (simp add: x)
  next
    case False
    with step_other [of x E w] Cons.prems
    have "first_run (component (step E w x))" and "unregistered (registry (step E w x))"
      by simp_all
    from Cons.IH [OF this] False step_other [of x E w] show ?thesis
      by (cases x) simp_all
  qed
qed

text \<open>
  C1, as the code has it. Start from a component whose flag \<open>first_run\<close> is set (as
  \<^verbatim>\<open>__init__\<close> leaves it) and a registry that holds none of the component's extensions.
  Along any sequence of operations, \<^verbatim>\<open>init_component\<close> is entered exactly once if the
  sequence processes a document and not at all otherwise; the flag is set exactly as long
  as no document has been processed, so it is cleared by the first \<open>Process\<close> and never
  set again; and the registry gains the component's extensions once, with the first
  \<open>Process\<close>, and is not touched by any later operation.
\<close>

theorem registration_runs_once:
  assumes "first_run (component w)" and "unregistered (registry w)"
  shows "init_entries (run E w ops) =
           init_entries w + (if list_ex is_process ops then 1 else 0) \<and>
         first_run (component (run E w ops)) = (\<not> list_ex is_process ops) \<and>
         registry (run E w ops) =
           (if list_ex is_process ops then registry w @ component_extensions else registry w)"
  using run_fresh [OF assms, of E ops] by (simp add: run_entries)

theorem registration_runs_once_witness:
  "first_run (component no_extensions) \<and> unregistered (registry no_extensions) \<and>
   init_entries no_extensions = 0 \<and>
   init_entries (run table_env no_extensions sample_ops) = 1 \<and>
   \<not> first_run (component (run table_env no_extensions sample_ops)) \<and>
   registry (run table_env no_extensions sample_ops) = component_extensions"
  using registration_runs_once
    [OF no_extensions_first_run no_extensions_unregistered, of table_env sample_ops]
    no_extensions_first_run no_extensions_unregistered
  by (simp add: sample_ops_def no_extensions_def)

lemma second_component_sel:
  "first_run (component second_component)"
  "registry second_component = component_extensions"
  "init_entries second_component = 1"
  by (simp_all add: second_component_def init_def ready_world_eq)

lemma run_registered:
  assumes "first_run (component w)" and "map_of (registry w) (Doc, ''_s2v'') \<noteq> None"
  shows "init_entries (run E w ops) = init_entries w + length (filter is_process ops) \<and>
         first_run (component (run E w ops)) \<and> registry (run E w ops) = registry w"
  using assms
proof (induction ops arbitrary: w)
  case Nil
  then show ?case by simp
next
  case (Cons x xs)
  show ?case
  proof (cases "is_process x")
    case True
    then obtain d where x: "x = Process d"
      by (cases x) simp_all
    have s: "step E w x = w\<lparr>init_entries := Suc (init_entries w)\<rparr>"
      by (simp add: x call_extension_exists [OF Cons.prems])
    from Cons.IH [of "step E w x"] Cons.prems show ?thesis
      by (simp add: s) (simp add: x)
  next
    case False
    from Cons.IH [of "step E w x"] step_other [OF False, of E w] Cons.prems False
    show ?thesis
      by simp
  qed
qed

text \<open>
  C1, as stated, fails: a second component built in a process whose registry already
  holds the extensions (a first component has processed a document) enters
  \<^verbatim>\<open>init_component\<close> on each of three \<^verbatim>\<open>__call__\<close>s, which raises at its first
  \<^verbatim>\<open>set_extension\<close> each time, and its flag \<open>first_run\<close> is still set afterwards.
\<close>

theorem second_component_counterexample:
  "first_run (component second_component) \<and>
   init_entries second_component = 1 \<and>
   init_entries (run table_env second_component three_docs) = 4 \<and>
   first_run (component (run table_env second_component three_docs)) \<and>
   fst (call table_env second_component plain_doc) = Inl (ExtensionExists Doc ''_s2v'')"
proof -
  have r: "map_of (registry second_component) (Doc, ''_s2v'') \<noteq> None"
    by (simp add: second_component_sel component_extensions_def)
  from run_registered [OF second_component_sel(1) r, of table_env three_docs]
    call_extension_exists [OF second_component_sel(1) r, of table_env plain_doc]
  show ?thesis
    by (simp add: second_component_sel three_docs_def)
qed

subsection \<open>Documents without a table\<close>

lemma doc_s2v_unbound:
  "user_s2v (obj_doc obj) = None \<Longrightarrow>
   doc_s2v w obj = Inl (ExtensionMissing Doc ''_s2v'') \<or> doc_s2v w obj = Inr PyNone \<or>
   doc_s2v w obj = Inr PyOther"
  by (simp add: doc_s2v_def underscore_get_def split: option.splits extension.splits)

lemma s2v_key_unbound:
  "user_s2v (obj_doc obj) = None \<Longrightarrow>
   s2v_key E w obj = Inl (ExtensionMissing Doc ''_s2v'') \<or>
   s2v_key E w obj = Inl (NoAttribute ''make_key'')"
  using doc_s2v_unbound [of obj w] by (auto simp: s2v_key_def getattr_def)

text \<open>
  C2. On a token or span whose document holds no table (it never went through
  \<^verbatim>\<open>__call__\<close>, the only place that assigns \<^verbatim>\<open>doc._._s2v\<close>), each of the five accessors
  \<^verbatim>\<open>in_s2v\<close>, \<^verbatim>\<open>s2v_vec\<close>, \<^verbatim>\<open>s2v_freq\<close>, \<^verbatim>\<open>s2v_most_similar\<close> and \<^verbatim>\<open>s2v_other_senses\<close> raises,
  and what it raises is the error of reading a table off a document that has none.
\<close>

theorem accessors_fail_unbound:
  assumes "user_s2v (obj_doc obj) = None"
  shows "(\<exists>e. in_s2v E w obj = Inl e \<and> unbound_document e) \<and>
         (\<exists>e. s2v_vec E w obj = Inl e \<and> unbound_document e) \<and>
         (\<exists>e. s2v_freq E w obj = Inl e \<and> unbound_document e) \<and>
         (\<exists>e. s2v_most_similar E w obj n = Inl e \<and> unbound_document e) \<and>
         (\<exists>e. s2v_other_senses E w obj = Inl e \<and> unbound_document e)"
proof -
  note k = s2v_key_unbound [OF assms, of E w]
  note d = doc_s2v_unbound [OF assms, of w]
  have 1: "\<exists>e. in_s2v E w obj = Inl e \<and> unbound_document e"
    using k by (auto simp: in_s2v_def)
  have 2: "\<exists>e. s2v_vec E w obj = Inl e \<and> unbound_document e"
    using k d by (auto simp: s2v_vec_def)
  have 3: "\<exists>e. s2v_freq E w obj = Inl e \<and> unbound_document e"
    using k d by (auto simp: s2v_freq_def getattr_def)
  have 4: "\<exists>e. s2v_most_similar E w obj n = Inl e \<and> unbound_document e"
    using k by (auto simp: s2v_most_similar_def)
  have 5: "\<exists>e. s2v_other_senses E w obj = Inl e \<and> unbound_document e"
    using k by (auto simp: s2v_other_senses_def)
  from 1 2 3 4 5 show ?thesis
    by blast
qed

theorem accessors_fail_unbound_witness:
  "user_s2v (obj_doc (token_of plain_doc ''dog'' ''noun'')) = None \<and>
   in_s2v table_env ready_world (token_of plain_doc ''dog'' ''noun'') =
     Inl (NoAttribute ''make_key'') \<and>
   s2v_vec table_env ready_world (token_of plain_doc ''dog'' ''noun'') =
     Inl (NoAttribute ''make_key'') \<and>
   s2v_freq table_env ready_world (token_of plain_doc ''dog'' ''noun'') =
     Inl (NoAttribute ''get_freq'') \<and>
   s2v_most_similar table_env ready_world (token_of plain_doc ''dog'' ''noun'') 3 =
     Inl (NoAttribute ''make_key'') \<and>
   s2v_other_senses table_env ready_world (token_of plain_doc ''dog'' ''noun'') =
     Inl (NoAttribute ''make_key'') \<and>
   in_s2v table_env no_extensions (token_of plain_doc ''dog'' ''noun'') =
     Inl (ExtensionMissing Doc ''_s2v'')"
proof -
  have a: "user_s2v (obj_doc (token_of plain_doc ''dog'' ''noun'')) = None"
    by (simp add: token_of_def plain_doc_def)
  have r: "map_of (registry ready_world) (Doc, ''_s2v'') = Some ExtDefault"
    by (simp add: ready_world_eq component_extensions_def)
  have d: "doc_s2v ready_world (token_of plain_doc ''dog'' ''noun'') = Inr PyNone"
    by (simp add: doc_s2v_def underscore_get_def r a)
  have d0: "doc_s2v no_extensions (token_of plain_doc ''dog'' ''noun'') =
      Inl (ExtensionMissing Doc ''_s2v'')"
    by (simp add: doc_s2v_def underscore_get_def no_extensions_def)
  from accessors_fail_unbound [OF a, of table_env ready_world 3] a d d0 show ?thesis
    by (simp add: in_s2v_def s2v_vec_def s2v_freq_def s2v_most_similar_def
        s2v_other_senses_def s2v_key_def getattr_def)
qed

subsection \<open>Documents that hold a table\<close>

lemma doc_s2v_bound: "bound_to w obj st \<Longrightarrow> doc_s2v w obj = Inr (PyStore st)"
  by (simp add: bound_to_def doc_s2v_def underscore_get_def)

lemma s2v_key_bound:
  "bound_to w obj st \<Longrightarrow>
   s2v_key E w obj =
     util_make_spacy_key E obj (store_make_key E st) (merge_phrases (component w))"
  by (simp add: s2v_key_def doc_s2v_bound getattr_def)

lemma ready_world_bound: "bound_to ready_world (token_of stamped_doc word pos) animals"
  by (simp add: bound_to_def ready_world_eq component_extensions_def token_of_def
      stamped_doc_def)

lemma table_env_sel:
  "store_new table_env shape strings = []"
  "store_contains table_env t key = (map_of t key \<noteq> None)"
  "store_getitem table_env t key =
     (case map_of t key of None \<Rightarrow> Inl KeyNotFound | Some (v, f) \<Rightarrow> Inr v)"
  "store_get_freq table_env t key =
     (case map_of t key of None \<Rightarrow> Inl KeyNotFound | Some (v, f) \<Rightarrow> Inr f)"
  "store_most_similar table_env t keys n =
     Inr (take (nat n) (map (\<lambda>row. (fst row, 1)) (filter (\<lambda>row. fst row \<notin> set keys) t)))"
  "store_get_other_senses table_env t key =
     Inr (filter (\<lambda>k. k \<noteq> key \<and> fst (bar_split k) = fst (bar_split key)) (map fst t))"
  "store_make_key table_env t = bar_key"
  "store_split_key table_env t = bar_split"
  "store_to_bytes table_env t exclude = Inr (table_bytes t)"
  "store_from_bytes table_env t b exclude = table_load b"
  "store_to_disk table_env t path exclude dk = Inr ((path, table_bytes t) # dk)"
  "store_from_disk table_env t path exclude dk =
     (case map_of dk path of None \<Rightarrow> Inl StoreLoadError | Some b \<Rightarrow> table_load b)"
  "util_merge_phrases table_env = join_words"
  "util_make_spacy_key table_env = make_spacy_key"
  by (simp_all add: table_env_def)

lemma ready_world_sel:
  "registry ready_world = component_extensions"
  "s2v (component ready_world) = animals"
  "first_run (component ready_world) = False"
  "merge_phrases (component ready_world) = False"
  "disk ready_world = []"
  "init_entries ready_world = 1"
  by (simp_all add: ready_world_eq)

lemma token_key:
  "make_spacy_key (token_of d ''cat'' ''noun'') bar_key False = Inr ''cat|NOUN''"
  "make_spacy_key (token_of d ''dog'' ''noun'') bar_key False = Inr ''dog|NOUN''"
  "make_spacy_key (token_of d ''duck'' ''noun'') bar_key False = Inr ''duck|NOUN''"
  by (simp_all add: make_spacy_key_def resolve_sense_def token_of_def upper_char_def
      lower_char_def normalize_text_def bar_key_def is_space_def)

lemma cat_key:
  "s2v_key table_env ready_world (token_of stamped_doc ''cat'' ''noun'') = Inr ''cat|NOUN''"
  by (simp add: s2v_key_bound [OF ready_world_bound] table_env_sel ready_world_sel token_key)

lemma duck_key:
  "s2v_key table_env ready_world (token_of stamped_doc ''duck'' ''noun'') = Inr ''duck|NOUN''"
  by (simp add: s2v_key_bound [OF ready_world_bound] table_env_sel ready_world_sel token_key)

lemma bar_split_animals:
  "bar_split ''dog|NOUN'' = (''dog'', ''NOUN'')"
  "bar_split ''duck|NOUN'' = (''duck'', ''NOUN'')"
  "bar_split ''duck|VERB'' = (''duck'', ''VERB'')"
  by (simp_all add: bar_split_def)

lemma own_s2v_unregistered:
  "map_of (registry w) (class_of (obj_kind obj), ''_s2v'') = None \<Longrightarrow>
   own_s2v w obj = Inl (ExtensionMissing (class_of (obj_kind obj)) ''_s2v'')"
  by (simp add: own_s2v_def underscore_get_def)

lemma other_senses_unregistered:
  "map_of (registry w) (class_of (obj_kind obj), ''_s2v'') = None \<Longrightarrow>
   \<exists>e. s2v_other_senses E w obj = Inl e"
  by (simp add: s2v_other_senses_def own_s2v_unregistered split: sum.splits)

lemma component_extensions_objects:
  "map_of component_extensions (class_of k, ''_s2v'') = None"
  by (cases k) (simp_all add: component_extensions_def object_extensions_def)

lemma other_senses_after_registration:
  assumes "registry w = component_extensions"
  shows "\<exists>e. s2v_other_senses E w obj = Inl e"
  using assms by (simp add: other_senses_unregistered component_extensions_objects)


lemma defaulting_env_sel:
  "store_contains defaulting_env t key = (map_of t key \<noteq> None)"
  "store_getitem defaulting_env t key =
     (case map_of t key of None \<Rightarrow> Inr [] | Some (v, f) \<Rightarrow> Inr v)"
  "store_make_key defaulting_env t = bar_key"
  "util_make_spacy_key defaulting_env = make_spacy_key"
  by (simp_all add: defaulting_env_def table_env_def)

lemma cat_key_defaulting:
  "s2v_key defaulting_env ready_world (token_of stamped_doc ''cat'' ''noun'') = Inr ''cat|NOUN''"
  by (simp add: s2v_key_bound [OF ready_world_bound] defaulting_env_sel ready_world_sel
      token_key)

text \<open>
  C7, as the code has it. For a token or span whose document holds a table and whose key
  is \<open>key\<close>, \<^verbatim>\<open>s2v_vec\<close> returns exactly what the table's lookup of \<open>key\<close> returns, be it
  a vector or an error, and \<^verbatim>\<open>in_s2v\<close> returns the table's membership test of \<open>key\<close> and
  does not raise. The component raises nothing of its own for an absent key and
  substitutes no value of its own: an absent key fails with \<open>KeyNotFound\<close> exactly when
  the table raises it.
\<close>

theorem vec_forwards_lookup:
  assumes "bound_to w obj st" and "s2v_key E w obj = Inr key"
  shows "s2v_vec E w obj = store_getitem E st key \<and>
         in_s2v E w obj = Inr (store_contains E st key)"
  using assms by (simp add: s2v_vec_def in_s2v_def doc_s2v_bound)

theorem vec_forwards_lookup_witness:
  "bound_to ready_world (token_of stamped_doc ''cat'' ''noun'') animals \<and>
   s2v_key table_env ready_world (token_of stamped_doc ''cat'' ''noun'') = Inr ''cat|NOUN'' \<and>
   s2v_vec table_env ready_world (token_of stamped_doc ''cat'' ''noun'') = Inl KeyNotFound \<and>
   in_s2v table_env ready_world (token_of stamped_doc ''cat'' ''noun'') = Inr False \<and>
   s2v_key table_env ready_world (token_of stamped_doc ''dog'' ''noun'') = Inr ''dog|NOUN'' \<and>
   s2v_vec table_env ready_world (token_of stamped_doc ''dog'' ''noun'') = Inr [1, 2] \<and>
   in_s2v table_env ready_world (token_of stamped_doc ''dog'' ''noun'') = Inr True"
proof -
  have d: "s2v_key table_env ready_world (token_of stamped_doc ''dog'' ''noun'') =
      Inr ''dog|NOUN''"
    by (simp add: s2v_key_bound [OF ready_world_bound] table_env_sel ready_world_sel
        token_key)
  from vec_forwards_lookup [OF ready_world_bound cat_key]
    vec_forwards_lookup [OF ready_world_bound d] ready_world_bound cat_key d
  show ?thesis
    by (simp add: table_env_sel animals_def)
qed

text \<open>
  C7, as stated, fails: with a table that answers the lookup of an absent key by an
  empty vector, \<^verbatim>\<open>s2v_vec\<close> on a token whose key the table does not contain returns the
  empty vector and raises nothing.
\<close>

theorem missing_key_default_counterexample:
  "bound_to ready_world (token_of stamped_doc ''cat'' ''noun'') animals \<and>
   s2v_key defaulting_env ready_world (token_of stamped_doc ''cat'' ''noun'') =
     Inr ''cat|NOUN'' \<and>
   \<not> store_contains defaulting_env animals ''cat|NOUN'' \<and>
   s2v_vec defaulting_env ready_world (token_of stamped_doc ''cat'' ''noun'') = Inr [] \<and>
   s2v_vec defaulting_env ready_world (token_of stamped_doc ''cat'' ''noun'') \<noteq>
     Inl KeyNotFound"
  using ready_world_bound [of "''cat''" "''noun''"]
  by (simp add: s2v_vec_def cat_key_defaulting doc_s2v_bound defaulting_env_sel animals_def)

text \<open>
  C6, as the code has it. \<^verbatim>\<open>s2v_most_similar\<close> makes no check of \<open>n\<close>: for a token or
  span whose document holds a table it passes the one-element key list and \<open>n\<close>,
  unchanged, to that table; an error of the table is raised as it is; a result of the
  table is returned in the table's order and length, every key split by the component's
  own table and every score kept. It has at most \<open>n\<close> entries when the table returns at
  most \<open>n\<close>.
\<close>

theorem most_similar_forwards:
  assumes "bound_to w obj st" and "s2v_key E w obj = Inr key"
  shows "s2v_most_similar E w obj n =
           (case store_most_similar E st [key] n of
              Inl e \<Rightarrow> Inl e
            | Inr results \<Rightarrow>
                Inr (map (\<lambda>(result, score).
                            (store_split_key E (s2v (component w)) result, score)) results)) \<and>
         (\<forall>results. store_most_similar E st [key] n = Inr results \<longrightarrow>
            (\<exists>decoded. s2v_most_similar E w obj n = Inr decoded \<and>
               length decoded = length results \<and> map snd decoded = map snd results))"
  using assms
  by (auto simp: s2v_most_similar_def doc_s2v_bound getattr_def split: sum.splits)

theorem most_similar_forwards_witness:
  "bound_to ready_world (token_of stamped_doc ''duck'' ''noun'') animals \<and>
   s2v_key table_env ready_world (token_of stamped_doc ''duck'' ''noun'') = Inr ''duck|NOUN'' \<and>
   s2v_most_similar table_env ready_world (token_of stamped_doc ''duck'' ''noun'') 1 =
     Inr [((''dog'', ''NOUN''), 1)] \<and>
   s2v_most_similar table_env ready_world (token_of stamped_doc ''duck'' ''noun'') 5 =
     Inr [((''dog'', ''NOUN''), 1), ((''duck'', ''VERB''), 1)]"
proof -
  note m = most_similar_forwards [OF ready_world_bound duck_key, THEN conjunct1]
  from m [of 1] m [of 5] ready_world_bound duck_key show ?thesis
    by (simp add: table_env_sel ready_world_sel animals_def bar_split_animals)
qed


text \<open>
  C6, as stated, fails: with a table that answers a query for \<open>n \<le> 0\<close> by the empty
  list, \<^verbatim>\<open>s2v_most_similar\<close> returns the empty list for \<open>n = 0\<close> and \<open>n = - 1\<close> and raises
  nothing.
\<close>

theorem most_similar_nonpositive_counterexample:
  "bound_to ready_world (token_of stamped_doc ''duck'' ''noun'') animals \<and>
   s2v_most_similar table_env ready_world (token_of stamped_doc ''duck'' ''noun'') 0 = Inr [] \<and>
   s2v_most_similar table_env ready_world (token_of stamped_doc ''duck'' ''noun'') (- 1) = Inr [] \<and>
   s2v_most_similar table_env ready_world (token_of stamped_doc ''duck'' ''noun'') 0
     \<noteq> Inl InvalidArgument"
  using ready_world_bound [of "''duck''" "''noun''"]
  by (simp add: s2v_most_similar_def duck_key doc_s2v_bound getattr_def table_env_sel)


text \<open>
  C3 fails on the code. After \<^verbatim>\<open>__call__\<close> on a fresh registry, the token
  \<^verbatim>\<open>duck\<close> of the processed document has the key \<^verbatim>\<open>duck|NOUN\<close> and the table on its
  document has another sense for it, but \<^verbatim>\<open>s2v_other_senses\<close> reads \<^verbatim>\<open>obj._._s2v\<close>, an
  attribute that \<^verbatim>\<open>init_component\<close> registers on \<^verbatim>\<open>Doc\<close> only, and raises.
\<close>

theorem other_senses_reads_object:
  "fst (call table_env no_extensions plain_doc) = Inr stamped_doc \<and>
   snd (call table_env no_extensions plain_doc) = ready_world \<and>
   s2v_key table_env ready_world (token_of stamped_doc ''duck'' ''noun'') = Inr ''duck|NOUN'' \<and>
   store_get_other_senses table_env animals ''duck|NOUN'' = Inr [''duck|VERB''] \<and>
   s2v_other_senses table_env ready_world (token_of stamped_doc ''duck'' ''noun'') =
     Inl (ExtensionMissing Token ''_s2v'')"
proof -
  have "map_of (registry ready_world)
          (class_of (obj_kind (token_of stamped_doc ''duck'' ''noun'')), ''_s2v'') = None"
    by (simp add: ready_world_sel component_extensions_objects)
  from own_s2v_unregistered [OF this]
  have "own_s2v ready_world (token_of stamped_doc ''duck'' ''noun'') =
     Inl (ExtensionMissing Token ''_s2v'')"
    by (simp add: token_of_def)
  then have "s2v_other_senses table_env ready_world (token_of stamped_doc ''duck'' ''noun'') =
     Inl (ExtensionMissing Token ''_s2v'')"
    by (simp add: s2v_other_senses_def duck_key)
  moreover have "store_get_other_senses table_env animals ''duck|NOUN'' = Inr [''duck|VERB'']"
    by (simp add: table_env_sel animals_def bar_split_animals)
  moreover have "snd (call table_env no_extensions plain_doc) = ready_world"
    by (simp add: ready_world_def)
  ultimately show ?thesis
    by (simp add: first_call_result duck_key)
qed

subsection \<open>Keys\<close>

lemma ready_merging_bound: "bound_to ready_merging (span_of stamped_doc words pos label) animals"
  by (simp add: bound_to_def ready_merging_def component_extensions_def span_of_def
      stamped_doc_def)

lemma ready_world_bound_span:
  "bound_to ready_world (span_of stamped_doc words pos label) animals"
  by (simp add: bound_to_def ready_world_eq component_extensions_def span_of_def
      stamped_doc_def)

lemma new_york_text: "normalize_text ''New  York'' = ''new_york''"
  by (simp add: normalize_text_def lower_char_def is_space_def)


text \<open>
  C4, against the key helper as the specification describes it. For a token or span
  whose document holds a table, \<^verbatim>\<open>s2v_key\<close> passes the component's \<^verbatim>\<open>merge_phrases\<close> flag
  as \<^verbatim>\<open>prefer_ents\<close> and the table's \<^verbatim>\<open>make_key\<close>: the sense handed to \<^verbatim>\<open>make_key\<close> is the
  entity label, uppercased, when the flag is set and the object has an entity label, and
  the coarse tag, uppercased, in every other case (an empty sense is an error).
\<close>

theorem key_sense_policy:
  assumes "bound_to w obj st" and "util_make_spacy_key E = make_spacy_key"
  shows "s2v_key E w obj =
           (let sense = (if merge_phrases (component w) \<and> obj_label obj \<noteq> None
                         then map upper_char (the (obj_label obj))
                         else map upper_char (obj_pos obj))
            in if sense = [] then Inl UnresolvableSense
               else Inr (store_make_key E st (normalize_text (obj_text obj)) sense))"
  using assms
  by (auto simp: s2v_key_bound make_spacy_key_def resolve_sense_def Let_def
      split: option.splits)

theorem key_sense_policy_witness:
  "bound_to ready_merging (span_of stamped_doc ''New  York'' ''propn'' ''gpe'') animals \<and>
   util_make_spacy_key table_env = make_spacy_key \<and>
   s2v_key table_env ready_merging (span_of stamped_doc ''New  York'' ''propn'' ''gpe'') =
     Inr ''new_york|GPE'' \<and>
   s2v_key table_env ready_world (span_of stamped_doc ''New  York'' ''propn'' ''gpe'') =
     Inr ''new_york|PROPN'' \<and>
   s2v_key table_env ready_merging (token_of stamped_doc ''bank'' ''noun'') =
     Inr ''bank|NOUN'' \<and>
   s2v_key table_env ready_merging (token_of stamped_doc ''bank'' []) = Inl UnresolvableSense"
proof -
  have e: "util_make_spacy_key table_env = make_spacy_key"
    by (simp add: table_env_sel)
  have b: "bound_to ready_merging (token_of stamped_doc word pos) animals" for word pos
    by (simp add: bound_to_def ready_merging_def component_extensions_def token_of_def
        stamped_doc_def)
  have t: "normalize_text ''bank'' = ''bank''"
    by (simp add: normalize_text_def lower_char_def is_space_def)
  from key_sense_policy [OF ready_merging_bound e, of "''New  York''" "''propn''" "''gpe''"]
    key_sense_policy [OF ready_world_bound_span e, of "''New  York''" "''propn''" "''gpe''"]
    key_sense_policy [OF b e, of "''bank''" "''noun''"]
    key_sense_policy [OF b e, of "''bank''" "[]"]
    ready_merging_bound e
  show ?thesis
    by (simp add: span_of_def token_of_def ready_merging_def ready_world_sel table_env_sel
        new_york_text upper_char_def t bar_key_def)
qed


subsection \<open>Processing a document\<close>

lemma unregistered_doc_s2v: "unregistered reg \<Longrightarrow> map_of reg (Doc, ''_s2v'') = None"
  by (simp add: unregistered_def component_extensions_def)

lemma registered_doc_s2v:
  "unregistered reg \<Longrightarrow> map_of (reg @ component_extensions) (Doc, ''_s2v'') = Some ExtDefault"
  by (simp add: unregistered_doc_s2v map_add_def component_extensions_def)

lemma set_doc_s2v_registered:
  "unregistered reg \<Longrightarrow>
   set_doc_s2v (reg @ component_extensions) d st = Inr (d\<lparr>user_s2v := Some st\<rparr>)"
  unfolding set_doc_s2v_def by (simp only: registered_doc_s2v option.case)

lemma call_result:
  "can_stamp w \<Longrightarrow>
   fst (call E w d) =
     Inr (if merge_phrases (component w)
          then util_merge_phrases E (d\<lparr>user_s2v := Some (s2v (component w))\<rparr>)
          else d\<lparr>user_s2v := Some (s2v (component w))\<rparr>)"
proof (cases "first_run (component w)")
  case True
  assume "can_stamp w"
  with True have u: "unregistered (registry w)"
    by (simp add: can_stamp_def)
  show ?thesis
    by (simp add: call_def True init_component_fresh [OF u] set_doc_s2v_registered [OF u])
next
  case False
  assume "can_stamp w"
  with False have "map_of (registry w) (Doc, ''_s2v'') \<noteq> None"
    by (simp add: can_stamp_def)
  then show ?thesis
    by (auto simp: call_def False set_doc_s2v_def)
qed

lemma merging_world_can_stamp: "can_stamp merging_world"
  by (simp add: can_stamp_def merging_world_def unregistered_def component_extensions_def
      object_extensions_def)


text \<open>
  C5, as the code has it. When \<^verbatim>\<open>__call__\<close> can run (the registration will succeed, or
  it has run and \<^verbatim>\<open>Doc\<close> has the \<^verbatim>\<open>_s2v\<close> extension) and \<^verbatim>\<open>merge_phrases\<close> is set, the
  table is stored on the document given and the document so marked is then handed to the
  phrase merger, whose result is returned. The returned document holds the table when the
  merger leaves the \<^verbatim>\<open>_s2v\<close> entry of a document as it finds it.
\<close>

theorem call_stamps_then_merges:
  assumes "can_stamp w" and "merge_phrases (component w)"
  shows "fst (call E w d) =
           Inr (util_merge_phrases E (d\<lparr>user_s2v := Some (s2v (component w))\<rparr>)) \<and>
         ((\<forall>x. user_s2v (util_merge_phrases E x) = user_s2v x) \<longrightarrow>
            (\<exists>d'. fst (call E w d) = Inr d' \<and> user_s2v d' = Some (s2v (component w))))"
  using assms by (simp add: call_result)

theorem call_stamps_then_merges_witness:
  "can_stamp merging_world \<and> merge_phrases (component merging_world) \<and>
   fst (call table_env merging_world plain_doc) =
     Inr \<lparr>doc_words = [''thedog''], user_s2v = Some animals\<rparr> \<and>
   fst (call rebuilding_env merging_world plain_doc) =
     Inr (rebuild_doc (plain_doc\<lparr>user_s2v := Some animals\<rparr>))"
proof -
  have m: "merge_phrases (component merging_world)"
    by (simp add: merging_world_def)
  from call_stamps_then_merges [OF merging_world_can_stamp m, of table_env plain_doc]
    call_stamps_then_merges [OF merging_world_can_stamp m, of rebuilding_env plain_doc]
    merging_world_can_stamp m
  show ?thesis
    by (simp add: table_env_sel rebuilding_env_def join_words_def plain_doc_def
        merging_world_def)
qed


text \<open>
  C5, as stated, fails: with a merger that returns a new document built from the words
  of the one it is given, the document \<^verbatim>\<open>__call__\<close> returns holds no table, and it is
  not the merger's result for the original document with the table stored on it
  afterwards.
\<close>

theorem merge_then_stamp_counterexample:
  "can_stamp merging_world \<and> merge_phrases (component merging_world) \<and>
   fst (call rebuilding_env merging_world plain_doc) =
     Inr \<lparr>doc_words = [''thedog''], user_s2v = None\<rparr> \<and>
   fst (call rebuilding_env merging_world plain_doc) \<noteq>
     Inr ((util_merge_phrases rebuilding_env plain_doc)
            \<lparr>user_s2v := Some (s2v (component merging_world))\<rparr>)"
proof -
  have m: "merge_phrases (component merging_world)"
    by (simp add: merging_world_def)
  have "fst (call rebuilding_env merging_world plain_doc) =
      Inr (rebuild_doc (plain_doc\<lparr>user_s2v := Some animals\<rparr>))"
    by (simp add: call_result [OF merging_world_can_stamp] m rebuilding_env_def)
      (simp add: merging_world_def)
  with merging_world_can_stamp m show ?thesis
    by (simp add: rebuild_doc_def plain_doc_def rebuilding_env_def)
qed



subsection \<open>Construction\<close>

lemma step_no_process:
  "\<not> is_process x \<Longrightarrow> \<not> runs_init w x"
  by (cases x) simp_all

lemma run_no_process:
  "list_all (\<lambda>x. \<not> is_process x) ops \<Longrightarrow>
   registry (run E w ops) = registry w \<and>
   first_run (component (run E w ops)) = first_run (component w) \<and>
   init_calls E w ops = 0"
proof (induction ops arbitrary: w)
  case Nil
  then show ?case by simp
next
  case (Cons x xs)
  then have x: "\<not> is_process x" and xs: "list_all (\<lambda>x. \<not> is_process x) xs"
    by simp_all
  from Cons.IH [OF xs, of "step E w x"] step_other [OF x, of E w] step_no_process [OF x, of w]
  show ?case
    by simp
qed


text \<open>
  C8. \<^verbatim>\<open>__init__\<close> leaves the registry and the disk as they are and sets \<open>first_run\<close>.
  Whatever operations other than \<open>Process\<close> follow, \<^verbatim>\<open>init_component\<close> has not been
  entered, the registry is still the one before the construction and the flag is still
  set; the registry changes with the first document processed.
\<close>

theorem init_registers_nothing:
  "registry (init E w vocab shape mp) = registry w \<and>
   disk (init E w vocab shape mp) = disk w \<and>
   first_run (component (init E w vocab shape mp)) \<and>
   (list_all (\<lambda>x. \<not> is_process x) ops \<longrightarrow>
      registry (run E (init E w vocab shape mp) ops) = registry w \<and>
      init_calls E (init E w vocab shape mp) ops = 0 \<and>
      init_entries (run E (init E w vocab shape mp) ops) = init_entries w \<and>
      first_run (component (run E (init E w vocab shape mp) ops)) \<and>
      (unregistered (registry w) \<longrightarrow>
         registry (step E (run E (init E w vocab shape mp) ops) (Process d)) =
           registry w @ component_extensions))"
proof -
  let ?w = "init E w vocab shape mp"
  have i: "registry ?w = registry w" "disk ?w = disk w" "first_run (component ?w)"
    "init_entries ?w = init_entries w"
    by (simp_all add: init_def Let_def)
  have "registry (step E (run E ?w ops) (Process d)) = registry w @ component_extensions"
    if u: "unregistered (registry w)" and n: "list_all (\<lambda>x. \<not> is_process x) ops"
  proof -
    from run_no_process [OF n, of E ?w] i u
    have "first_run (component (run E ?w ops))" "unregistered (registry (run E ?w ops))"
      "registry (run E ?w ops) = registry w"
      by simp_all
    with call_first [of "run E ?w ops" E d] show ?thesis
      by simp
  qed
  with i run_no_process [of ops E ?w] run_entries [of E ?w ops] show ?thesis
    by auto
qed

theorem init_registers_nothing_witness:
  "list_all (\<lambda>x. \<not> is_process x) no_process_ops \<and>
   unregistered (registry no_extensions) \<and>
   registry (init table_env no_extensions (Some \<lparr>vocab_strings = [''dog'']\<rparr>) (1000, 128) True)
     = [] \<and>
   registry (run table_env
     (init table_env no_extensions (Some \<lparr>vocab_strings = [''dog'']\<rparr>) (1000, 128) True)
     no_process_ops) = [] \<and>
   init_calls table_env
     (init table_env no_extensions (Some \<lparr>vocab_strings = [''dog'']\<rparr>) (1000, 128) True)
     no_process_ops = 0 \<and>
   registry (step table_env (run table_env
     (init table_env no_extensions (Some \<lparr>vocab_strings = [''dog'']\<rparr>) (1000, 128) True)
     no_process_ops) (Process plain_doc)) = component_extensions"
proof -
  have n: "list_all (\<lambda>x. \<not> is_process x) no_process_ops"
    by (simp add: no_process_ops_def)
  have r: "registry no_extensions = []"
    by (simp add: no_extensions_def)
  from init_registers_nothing [of table_env no_extensions
      "Some \<lparr>vocab_strings = [''dog'']\<rparr>" "(1000, 128)" True no_process_ops plain_doc]
    n no_extensions_unregistered
  show ?thesis
    by (simp add: r)
qed


subsection \<open>Serialisation and loading\<close>

text \<open>
  C9. \<^verbatim>\<open>to_bytes\<close> returns what the table's \<^verbatim>\<open>to_bytes\<close> returns and changes nothing;
  \<^verbatim>\<open>from_bytes\<close> and \<^verbatim>\<open>from_disk\<close> yield the table, or the error, that the table's own
  loader yields on a new table; \<^verbatim>\<open>to_disk\<close> leaves the disk as the table's \<^verbatim>\<open>to_disk\<close>
  leaves it, or raises its error. All four pass \<^verbatim>\<open>exclude=["strings"]\<close>.
\<close>

theorem serialization_passthrough:
  "fst (to_bytes E w) = store_to_bytes E (s2v (component w)) [''strings''] \<and>
   snd (to_bytes E w) = w \<and>
   map_sum id s2v (fst (from_bytes E w b)) =
     store_from_bytes E (store_new E None None) b [''strings''] \<and>
   map_sum id (\<lambda>u. disk (snd (to_disk E w path))) (fst (to_disk E w path)) =
     store_to_disk E (s2v (component w)) path [''strings''] (disk w) \<and>
   map_sum id s2v (fst (from_disk E w path)) =
     store_from_disk E (store_new E None None) path [''strings''] (disk w)"
  by (simp add: to_bytes_def from_bytes_def to_disk_def from_disk_def Let_def
      split: sum.splits)

lemma only_table_replaced_answers:
  assumes "only_table_replaced w w'"
  shows "same_answers E w w' obj"
proof -
  from assms have r: "registry w' = registry w"
    and m: "merge_phrases (component w') = merge_phrases (component w)"
    by (simp_all add: only_table_replaced_def)
  have d: "doc_s2v w' obj = doc_s2v w obj"
    by (simp add: doc_s2v_def r)
  have o: "own_s2v w' obj = own_s2v w obj"
    by (simp add: own_s2v_def r)
  have k: "s2v_key E w' obj = s2v_key E w obj"
    unfolding s2v_key_def d m by (rule refl)
  show ?thesis
    unfolding same_answers_def in_s2v_def s2v_vec_def s2v_freq_def s2v_other_senses_def d o k
    by simp
qed

lemma most_similar_scores:
  assumes "only_table_replaced w w'"
  shows "map_sum id (map snd) (s2v_most_similar E w' obj n) =
         map_sum id (map snd) (s2v_most_similar E w obj n)"
proof -
  from assms have r: "registry w' = registry w"
    and m: "merge_phrases (component w') = merge_phrases (component w)"
    by (simp_all add: only_table_replaced_def)
  have d: "doc_s2v w' obj = doc_s2v w obj"
    by (simp add: doc_s2v_def r)
  have k: "s2v_key E w' obj = s2v_key E w obj"
    unfolding s2v_key_def d m by (rule refl)
  show ?thesis
    unfolding s2v_most_similar_def d k by (auto split: sum.splits prod.splits)
qed

lemma from_bytes_frame: "only_table_replaced w (snd (from_bytes E w b))"
  by (simp add: only_table_replaced_def from_bytes_def Let_def split: sum.splits)

lemma from_disk_frame: "only_table_replaced w (snd (from_disk E w path))"
  by (simp add: only_table_replaced_def from_disk_def Let_def split: sum.splits)

lemma dog_key:
  "s2v_key table_env ready_world (token_of stamped_doc ''dog'' ''noun'') = Inr ''dog|NOUN''"
  by (simp add: s2v_key_bound [OF ready_world_bound] table_env_sel ready_world_sel token_key)


text \<open>
  C10. \<^verbatim>\<open>from_bytes\<close> and \<^verbatim>\<open>from_disk\<close> keep \<open>first_run\<close>, \<open>merge_phrases\<close>, the registry
  and the disk; they return the component itself, or leave the world untouched when
  the table's loader raises. A token or span holds the table it held before, and
  \<^verbatim>\<open>s2v_key\<close>, \<^verbatim>\<open>in_s2v\<close>, \<^verbatim>\<open>s2v_vec\<close>, \<^verbatim>\<open>s2v_freq\<close> and \<^verbatim>\<open>s2v_other_senses\<close> answer on it as
  they did before the load: a document processed earlier stays with the earlier table.
  \<^verbatim>\<open>s2v_most_similar\<close> still queries that table (same error, same scores in the same
  order); only the splitting of the returned keys is done by the newly loaded table.
\<close>

theorem load_replaces_table_only:
  "only_table_replaced w (snd (from_bytes E w b)) \<and>
   only_table_replaced w (snd (from_disk E w path)) \<and>
   (case fst (from_bytes E w b) of
      Inl e \<Rightarrow> snd (from_bytes E w b) = w
    | Inr c \<Rightarrow> c = component (snd (from_bytes E w b))) \<and>
   (case fst (from_disk E w path) of
      Inl e \<Rightarrow> snd (from_disk E w path) = w
    | Inr c \<Rightarrow> c = component (snd (from_disk E w path))) \<and>
   same_answers E w (snd (from_bytes E w b)) obj \<and>
   same_answers E w (snd (from_disk E w path)) obj \<and>
   map_sum id (map snd) (s2v_most_similar E (snd (from_bytes E w b)) obj n) =
     map_sum id (map snd) (s2v_most_similar E w obj n) \<and>
   map_sum id (map snd) (s2v_most_similar E (snd (from_disk E w path)) obj n) =
     map_sum id (map snd) (s2v_most_similar E w obj n) \<and>
   bound_to (snd (from_bytes E w b)) obj st = bound_to w obj st \<and>
   bound_to (snd (from_disk E w path)) obj st = bound_to w obj st"
proof -
  have "case fst (from_bytes E w b) of
      Inl e \<Rightarrow> snd (from_bytes E w b) = w
    | Inr c \<Rightarrow> c = component (snd (from_bytes E w b))"
    by (simp add: from_bytes_def Let_def split: sum.splits)
  moreover have "case fst (from_disk E w path) of
      Inl e \<Rightarrow> snd (from_disk E w path) = w
    | Inr c \<Rightarrow> c = component (snd (from_disk E w path))"
    by (simp add: from_disk_def Let_def split: sum.splits)
  moreover have "bound_to (snd (from_bytes E w b)) obj st = bound_to w obj st"
    using from_bytes_frame [of w E b] by (simp add: only_table_replaced_def bound_to_def)
  moreover have "bound_to (snd (from_disk E w path)) obj st = bound_to w obj st"
    using from_disk_frame [of w E path] by (simp add: only_table_replaced_def bound_to_def)
  ultimately show ?thesis
    by (simp add: from_bytes_frame from_disk_frame only_table_replaced_answers
        most_similar_scores)
qed

theorem load_replaces_table_only_witness:
  "s2v (component (snd (from_bytes table_env ready_world [3]))) = [(''xxx|X'', [], 0)] \<and>
   \<not> first_run (component (snd (from_bytes table_env ready_world [3]))) \<and>
   in_s2v table_env ready_world (token_of stamped_doc ''dog'' ''noun'') = Inr True \<and>
   in_s2v table_env (snd (from_bytes table_env ready_world [3]))
     (token_of stamped_doc ''dog'' ''noun'') = Inr True \<and>
   \<not> store_contains table_env [(''xxx|X'', [], 0)] ''dog|NOUN'' \<and>
   snd (from_bytes table_env ready_world []) = ready_world"
proof -
  have i: "in_s2v table_env ready_world (token_of stamped_doc ''dog'' ''noun'') = Inr True"
    by (simp add: in_s2v_def dog_key doc_s2v_bound [OF ready_world_bound] table_env_sel
        animals_def)
  have l: "table_load [3] = Inr [(''xxx|X'', [], 0)]" "table_load [] = Inl StoreLoadError"
    by code_simp+
  have s: "s2v (component (snd (from_bytes table_env ready_world [3]))) = [(''xxx|X'', [], 0)]"
    "snd (from_bytes table_env ready_world []) = ready_world"
    by (simp_all add: from_bytes_def table_env_sel l)
  from load_replaces_table_only [of ready_world table_env "[3]" "''model''"
      "token_of stamped_doc ''dog'' ''noun''" 3 animals] i s
  show ?thesis
    by (simp add: only_table_replaced_def same_answers_def ready_world_sel table_env_sel)
qed

end
